theory Spec2Isabelle
  imports Complex_Main
begin

section \<open>Turtle's Adventure: the data model\<close>

text \<open>
  Coordinates are Python numbers (ints and floats mixed); they are modelled as
  \<^typ>\<open>real\<close>, so float rounding is idealised away.  Sizes are Python ints, and
  \<^verbatim>\<open>size/2\<close> is Python's true division.  The fields \<^verbatim>\<open>x\<close> and \<^verbatim>\<open>y\<close> of a game
  element are called \<open>xcor\<close> and \<open>ycor\<close> (the names the turtle uses for them).
\<close>

datatype error = ValueError | IndexError | TypeError

record GameElement =
  xcor :: real
  ycor :: real

record Waypoint = GameElement +
  is_active :: bool

record Home = GameElement +
  home_size :: int

text \<open>
  The player's position is the position of its turtle; \<open>heading\<close> is the turtle's
  orientation (in radians here, the turtle counts degrees).
\<close>

record Player = GameElement +
  player_speed :: real
  heading :: real

record Enemy = GameElement +
  enemy_size :: int
  color :: string

text \<open>The bound methods stored in \<^verbatim>\<open>xmove\<close>, \<^verbatim>\<open>ymove\<close> and \<^verbatim>\<open>move\<close>.\<close>

datatype xdir = x_left | x_right
datatype ydir = y_up | y_down
datatype leg = leg_up | leg_right | leg_down | leg_left

record RandomWalkEnemy = Enemy +
  rw_speed :: int
  xmove :: xdir
  ymove :: ydir

record ChasingEnemy = Enemy +
  ch_speed :: real
  speedx :: real
  speedy :: real

record FencingEnemy = Enemy +
  f_speed :: real
  homex :: real
  homey :: real
  off_from_home :: real
  f_move :: "leg option"

record BlockerEnemy = Enemy +
  b_speed :: real
  player_x :: real
  player_y :: real
  off_from_player :: real
  b_move :: "leg option"

datatype enemy =
    RandomWalk RandomWalkEnemy
  | Chasing ChasingEnemy
  | Fencing FencingEnemy
  | Blocker BlockerEnemy

text \<open>The enemy classes as they are stored in \<^verbatim>\<open>enemies_factory\<close>.\<close>

datatype kind = KRandomWalk | KChasing | KFencing | KBlocker

text \<open>
  The entries of the game's element list.  Waypoint, home and player are the
  same objects as the game's fields of that name, so the list holds a tag for
  them; the enemies live in the list only.
\<close>

datatype element = ElemWaypoint | ElemHome | ElemPlayer | ElemEnemy enemy

datatype canvas_item =
    Line string
  | Rectangle string
  | Oval string
  | Text real real string string

datatype callback = CreateEnemy

record Game =
  level :: int
  screen_width :: int
  screen_height :: int
  waypoint :: Waypoint
  player :: Player
  home :: Home
  enemies_factory :: "kind list"
  enemies_color :: "string list"
  elements :: "element list"
  is_stopped :: bool
  canvas :: "canvas_item list"
  now :: nat
  timers :: "(nat \<times> callback) list"

section \<open>Library operations the game calls\<close>

text \<open>
  \<^verbatim>\<open>random.randint(a, b)\<close>: some integer of \<open>[a, b]\<close>, ValueError when the range is
  empty.  The random source is an argument \<open>d\<close> (a draw); every value of the range
  is the result for some draw.  The distribution is not modelled.
\<close>

definition randint :: "int \<Rightarrow> int \<Rightarrow> nat \<Rightarrow> error + int" where
  "randint a b d = (if b < a then Inl ValueError else Inr (a + int d mod (b - a + 1)))"

definition err_bind :: "error + 'a \<Rightarrow> ('a \<Rightarrow> error + 'b) \<Rightarrow> error + 'b" where
  "err_bind m f = (case m of Inl e \<Rightarrow> Inl e | Inr v \<Rightarrow> f v)"

text \<open>\<^verbatim>\<open>math.atan2(y, x)\<close> over the reals (no signed zeros); \<open>atan2 0 0 = 0\<close> as in Python.\<close>

definition atan2 :: "real \<Rightarrow> real \<Rightarrow> real" where
  "atan2 y x =
     (if 0 < x then arctan (y / x)
      else if x < 0 then (if 0 \<le> y then arctan (y / x) + pi else arctan (y / x) - pi)
      else if 0 < y then pi / 2
      else if y < 0 then - (pi / 2)
      else 0)"

text \<open>
  The turtle operations \<^verbatim>\<open>Player.update\<close> calls (Python's standard turtle module, in
  the mode \<^verbatim>\<open>setworldcoordinates\<close> selects): \<^verbatim>\<open>towards\<close> is the angle of the vector to
  the point, \<^verbatim>\<open>setheading\<close> stores it, \<^verbatim>\<open>forward\<close> moves along the heading and
  \<^verbatim>\<open>distance\<close> is the Euclidean distance.
\<close>

definition towards :: "'a GameElement_scheme \<Rightarrow> real \<Rightarrow> real \<Rightarrow> real" where
  "towards t px py = atan2 (py - ycor t) (px - xcor t)"

definition setheading :: "real \<Rightarrow> Player \<Rightarrow> Player" where
  "setheading a t = t\<lparr>heading := a\<rparr>"

definition forward :: "real \<Rightarrow> Player \<Rightarrow> Player" where
  "forward len t =
     t\<lparr>xcor := xcor t + len * cos (heading t), ycor := ycor t + len * sin (heading t)\<rparr>"

definition distance :: "'a GameElement_scheme \<Rightarrow> real \<Rightarrow> real \<Rightarrow> real" where
  "distance t px py = sqrt ((px - xcor t)\<^sup>2 + (py - ycor t)\<^sup>2)"

text \<open>Canvas calls of tkinter: each appends the item it creates.\<close>

definition create_item :: "canvas_item \<Rightarrow> Game \<Rightarrow> Game" where
  "create_item it g = g\<lparr>canvas := canvas g @ [it]\<rparr>"

text \<open>
  \<^verbatim>\<open>after(delay, callback)\<close> of tkinter: the callback is queued to fire \<open>delay\<close>
  time units from now.
\<close>

definition after :: "nat \<Rightarrow> callback \<Rightarrow> Game \<Rightarrow> Game" where
  "after delay cb g = g\<lparr>timers := timers g @ [(now g + delay, cb)]\<rparr>"

section \<open>Waypoint\<close>

definition activate :: "real \<Rightarrow> real \<Rightarrow> Waypoint \<Rightarrow> Waypoint" where
  "activate px py w = w\<lparr>is_active := True, xcor := px, ycor := py\<rparr>"

definition deactivate :: "Waypoint \<Rightarrow> Waypoint" where
  "deactivate w = w\<lparr>is_active := False\<rparr>"

section \<open>Collision tests\<close>

text \<open>\<^verbatim>\<open>Home.contains\<close>: the chained comparison \<^verbatim>\<open>x1 <= x <= x2 and y1 <= y <= y2\<close>.\<close>

definition contains :: "Home \<Rightarrow> real \<Rightarrow> real \<Rightarrow> bool" where
  "contains h px py =
     (let x1 = xcor h - real_of_int (home_size h) / 2;
          x2 = xcor h + real_of_int (home_size h) / 2;
          y1 = ycor h - real_of_int (home_size h) / 2;
          y2 = ycor h + real_of_int (home_size h) / 2
      in (x1 \<le> px \<and> px \<le> x2) \<and> (y1 \<le> py \<and> py \<le> y2))"

text \<open>\<^verbatim>\<open>Enemy.hits_player\<close>, for every enemy class (any extension of \<open>Enemy\<close>).\<close>

definition hits_player :: "'a Enemy_scheme \<Rightarrow> Game \<Rightarrow> bool" where
  "hits_player e g =
     ((xcor e - real_of_int (enemy_size e) / 2 < xcor (player g)
        \<and> xcor (player g) < xcor e + real_of_int (enemy_size e) / 2)
      \<and>
      (ycor e - real_of_int (enemy_size e) / 2 < ycor (player g)
        \<and> ycor (player g) < ycor e + real_of_int (enemy_size e) / 2))"

section \<open>End of the game\<close>

text \<open>
  Modelled from the spec: \<^verbatim>\<open>Game.stop\<close> is a method of gamelib, whose code is not
  part of \<^verbatim>\<open>turtle_adventure.py\<close>.  The spec speaks of the session controller's
  stopped flag, which stopping sets.
\<close>

definition stop :: "Game \<Rightarrow> Game" where
  "stop g = g\<lparr>is_stopped := True\<rparr>"

text \<open>The text is drawn at the centre of the screen (the font is left out).\<close>

definition game_over_win :: "Game \<Rightarrow> Game" where
  "game_over_win g =
     (let g1 = stop g
      in create_item (Text (real_of_int (screen_width g1) / 2) (real_of_int (screen_height g1) / 2)
                        ''You Win'' ''green'') g1)"

definition game_over_lose :: "Game \<Rightarrow> Game" where
  "game_over_lose g =
     (let g1 = stop g
      in create_item (Text (real_of_int (screen_width g1) / 2) (real_of_int (screen_height g1) / 2)
                        ''You Lose'' ''red'') g1)"

section \<open>Player\<close>

definition Player_update :: "Game \<Rightarrow> Game" where
  "Player_update g =
     (let g1 = (if contains (home g) (xcor (player g)) (ycor (player g))
                then game_over_win g else g);
          wp = waypoint g1
      in if is_active wp then
           (let t1 = setheading (towards (player g1) (xcor wp) (ycor wp)) (player g1);
                t2 = forward (player_speed t1) t1;
                g2 = g1\<lparr>player := t2\<rparr>
            in if distance t2 (xcor wp) (ycor wp) < player_speed t2
               then g2\<lparr>waypoint := deactivate wp\<rparr> else g2)
         else g1)"

section \<open>Enemies\<close>

text \<open>
  The constructors.  The position a new game element has is set by gamelib's
  \<^verbatim>\<open>GameElement.__init__\<close> and is taken as (0, 0); the spawner and the creation
  hooks overwrite it before it is read.
\<close>

definition RandomWalkEnemy_init :: "Game \<Rightarrow> int \<Rightarrow> string \<Rightarrow> nat \<Rightarrow> error + RandomWalkEnemy" where
  "RandomWalkEnemy_init g sz col d =
     err_bind (randint 1 5 d) (\<lambda>s.
       Inr \<lparr>xcor = 0, ycor = 0, enemy_size = sz, color = col,
            rw_speed = s, xmove = x_right, ymove = y_down\<rparr>)"

definition ChasingEnemy_init :: "Game \<Rightarrow> int \<Rightarrow> string \<Rightarrow> ChasingEnemy" where
  "ChasingEnemy_init g sz col =
     \<lparr>xcor = 0, ycor = 0, enemy_size = sz, color = col,
      ch_speed = 3, speedx = 0, speedy = 0\<rparr>"

definition FencingEnemy_init :: "Game \<Rightarrow> int \<Rightarrow> string \<Rightarrow> FencingEnemy" where
  "FencingEnemy_init g sz col =
     \<lparr>xcor = 0, ycor = 0, enemy_size = sz, color = col,
      f_speed = 2, homex = xcor (home g), homey = ycor (home g),
      off_from_home = 60, f_move = None\<rparr>"

definition BlockerEnemy_init :: "Game \<Rightarrow> int \<Rightarrow> string \<Rightarrow> BlockerEnemy" where
  "BlockerEnemy_init g sz col =
     \<lparr>xcor = 0, ycor = 0, enemy_size = sz, color = col,
      b_speed = 7, player_x = xcor (player g), player_y = ycor (player g),
      off_from_player = 60, b_move = None\<rparr>"

subsection \<open>RandomWalkEnemy\<close>

definition rw_x_left :: "Game \<Rightarrow> RandomWalkEnemy \<Rightarrow> RandomWalkEnemy" where
  "rw_x_left g e =
     (let e1 = e\<lparr>xcor := xcor e - real_of_int (rw_speed e)\<rparr>
      in if xcor e1 < 0 then e1\<lparr>xmove := x_right\<rparr> else e1)"

definition rw_x_right :: "Game \<Rightarrow> RandomWalkEnemy \<Rightarrow> RandomWalkEnemy" where
  "rw_x_right g e =
     (let e1 = e\<lparr>xcor := xcor e + real_of_int (rw_speed e)\<rparr>
      in if xcor e1 > real_of_int (screen_width g) then e1\<lparr>xmove := x_left\<rparr> else e1)"

definition rw_y_up :: "Game \<Rightarrow> RandomWalkEnemy \<Rightarrow> RandomWalkEnemy" where
  "rw_y_up g e =
     (let e1 = e\<lparr>ycor := ycor e - real_of_int (rw_speed e)\<rparr>
      in if ycor e1 \<le> 0 then e1\<lparr>ymove := y_down\<rparr> else e1)"

definition rw_y_down :: "Game \<Rightarrow> RandomWalkEnemy \<Rightarrow> RandomWalkEnemy" where
  "rw_y_down g e =
     (let e1 = e\<lparr>ycor := ycor e + real_of_int (rw_speed e)\<rparr>
      in if ycor e1 > real_of_int (screen_height g) then e1\<lparr>ymove := y_up\<rparr> else e1)"

text \<open>The creation hook; \<open>d1\<close> and \<open>d2\<close> are the two draws.\<close>

definition RandomWalkEnemy_create ::
  "nat \<Rightarrow> nat \<Rightarrow> RandomWalkEnemy \<Rightarrow> Game \<Rightarrow> error + (RandomWalkEnemy \<times> Game)" where
  "RandomWalkEnemy_create d1 d2 e g =
     err_bind (randint 0 (screen_width g - 1) d1) (\<lambda>x1.
     err_bind (randint 0 (screen_width g - 1) d2) (\<lambda>y1.
       Inr (e\<lparr>xcor := real_of_int x1, ycor := real_of_int y1\<rparr>,
            create_item (Oval (color e)) g)))"

definition RandomWalkEnemy_update :: "RandomWalkEnemy \<Rightarrow> Game \<Rightarrow> RandomWalkEnemy \<times> Game" where
  "RandomWalkEnemy_update e g =
     (let e1 = (case xmove e of x_left \<Rightarrow> rw_x_left g e | x_right \<Rightarrow> rw_x_right g e);
          e2 = (case ymove e1 of y_up \<Rightarrow> rw_y_up g e1 | y_down \<Rightarrow> rw_y_down g e1)
      in (e2, if hits_player e2 g then game_over_lose g else g))"

subsection \<open>ChasingEnemy\<close>

definition ChasingEnemy_create ::
  "nat \<Rightarrow> nat \<Rightarrow> ChasingEnemy \<Rightarrow> Game \<Rightarrow> error + (ChasingEnemy \<times> Game)" where
  "ChasingEnemy_create d1 d2 e g =
     err_bind (randint 0 (screen_width g - 1) d1) (\<lambda>x1.
     err_bind (randint 0 (screen_width g - 1) d2) (\<lambda>y1.
       Inr (e\<lparr>xcor := real_of_int x1, ycor := real_of_int y1\<rparr>,
            create_item (Rectangle (color e)) g)))"

definition ChasingEnemy_update :: "ChasingEnemy \<Rightarrow> Game \<Rightarrow> ChasingEnemy \<times> Game" where
  "ChasingEnemy_update e g =
     (let angle = atan2 (ycor (player g) - ycor e) (xcor (player g) - xcor e);
          e1 = e\<lparr>speedx := ch_speed e * cos angle\<rparr>;
          e2 = e1\<lparr>speedy := ch_speed e1 * sin angle\<rparr>;
          e3 = e2\<lparr>xcor := xcor e2 + speedx e2\<rparr>;
          e4 = e3\<lparr>ycor := ycor e3 + speedy e3\<rparr>
      in (e4, if hits_player e4 g then game_over_lose g else g))"

subsection \<open>FencingEnemy\<close>

text \<open>
  The creation hook picks entry \<^verbatim>\<open>randint(0, 3)\<close> of the list \<^verbatim>\<open>pos\<close> of start
  positions and first legs.
\<close>

definition fencing_pos :: "FencingEnemy \<Rightarrow> ((real \<times> real) \<times> leg) list" where
  "fencing_pos e =
     [((homex e, homey e + off_from_home e), leg_left),
      ((homex e + off_from_home e, homey e), leg_down),
      ((homex e, homey e - off_from_home e), leg_right),
      ((homex e - off_from_home e, homey e), leg_up)]"

definition FencingEnemy_create ::
  "nat \<Rightarrow> FencingEnemy \<Rightarrow> Game \<Rightarrow> error + (FencingEnemy \<times> Game)" where
  "FencingEnemy_create d e g =
     err_bind (randint 0 3 d) (\<lambda>i.
       (let ran_pos = fencing_pos e ! nat i
        in Inr (e\<lparr>xcor := fst (fst ran_pos), ycor := snd (fst ran_pos),
                  f_move := Some (snd ran_pos)\<rparr>,
                create_item (Rectangle (color e)) g)))"

definition fencing_up :: "FencingEnemy \<Rightarrow> FencingEnemy" where
  "fencing_up e =
     (let e1 = e\<lparr>ycor := ycor e - f_speed e\<rparr>
      in if ycor e1 < homey e1 - off_from_home e1 then e1\<lparr>f_move := Some leg_right\<rparr> else e1)"

definition fencing_right :: "FencingEnemy \<Rightarrow> FencingEnemy" where
  "fencing_right e =
     (let e1 = e\<lparr>xcor := xcor e + f_speed e\<rparr>
      in if xcor e1 > homex e1 + off_from_home e1 then e1\<lparr>f_move := Some leg_down\<rparr> else e1)"

definition fencing_down :: "FencingEnemy \<Rightarrow> FencingEnemy" where
  "fencing_down e =
     (let e1 = e\<lparr>ycor := ycor e + f_speed e\<rparr>
      in if ycor e1 > homey e1 + off_from_home e1 then e1\<lparr>f_move := Some leg_left\<rparr> else e1)"

definition fencing_left :: "FencingEnemy \<Rightarrow> FencingEnemy" where
  "fencing_left e =
     (let e1 = e\<lparr>xcor := xcor e - f_speed e\<rparr>
      in if xcor e1 < homex e1 - off_from_home e1 then e1\<lparr>f_move := Some leg_up\<rparr> else e1)"

text \<open>\<^verbatim>\<open>self.move()\<close>: calling \<^verbatim>\<open>None\<close> (an enemy never created) raises TypeError.\<close>

definition fencing_move :: "FencingEnemy \<Rightarrow> error + FencingEnemy" where
  "fencing_move e =
     (case f_move e of
        None \<Rightarrow> Inl TypeError
      | Some leg_up \<Rightarrow> Inr (fencing_up e)
      | Some leg_right \<Rightarrow> Inr (fencing_right e)
      | Some leg_down \<Rightarrow> Inr (fencing_down e)
      | Some leg_left \<Rightarrow> Inr (fencing_left e))"

definition FencingEnemy_update :: "FencingEnemy \<Rightarrow> Game \<Rightarrow> error + (FencingEnemy \<times> Game)" where
  "FencingEnemy_update e g =
     err_bind (fencing_move e) (\<lambda>e1.
       Inr (e1, if hits_player e1 g then game_over_lose g else g))"

subsection \<open>BlockerEnemy\<close>

definition blocker_pos :: "BlockerEnemy \<Rightarrow> ((real \<times> real) \<times> leg) list" where
  "blocker_pos e =
     [((player_x e, player_y e + off_from_player e), leg_left),
      ((player_x e + off_from_player e, player_y e), leg_down),
      ((player_x e, player_y e - off_from_player e), leg_right),
      ((player_x e - off_from_player e, player_y e), leg_up)]"

definition BlockerEnemy_create ::
  "nat \<Rightarrow> BlockerEnemy \<Rightarrow> Game \<Rightarrow> error + (BlockerEnemy \<times> Game)" where
  "BlockerEnemy_create d e g =
     err_bind (randint 0 3 d) (\<lambda>i.
       (let ran_pos = blocker_pos e ! nat i
        in Inr (e\<lparr>xcor := fst (fst ran_pos), ycor := snd (fst ran_pos),
                  b_move := Some (snd ran_pos)\<rparr>,
                create_item (Rectangle (color e)) g)))"

definition blocker_up :: "BlockerEnemy \<Rightarrow> BlockerEnemy" where
  "blocker_up e =
     (let e1 = e\<lparr>ycor := ycor e - b_speed e\<rparr>
      in if ycor e1 < player_y e1 - off_from_player e1 then e1\<lparr>b_move := Some leg_down\<rparr> else e1)"

definition blocker_right :: "BlockerEnemy \<Rightarrow> BlockerEnemy" where
  "blocker_right e =
     (let e1 = e\<lparr>xcor := xcor e + b_speed e\<rparr>
      in if xcor e1 > player_x e1 + off_from_player e1 then e1\<lparr>b_move := Some leg_left\<rparr> else e1)"

definition blocker_down :: "BlockerEnemy \<Rightarrow> BlockerEnemy" where
  "blocker_down e =
     (let e1 = e\<lparr>ycor := ycor e + b_speed e\<rparr>
      in if ycor e1 > player_y e1 + off_from_player e1 then e1\<lparr>b_move := Some leg_up\<rparr> else e1)"

definition blocker_left :: "BlockerEnemy \<Rightarrow> BlockerEnemy" where
  "blocker_left e =
     (let e1 = e\<lparr>xcor := xcor e - b_speed e\<rparr>
      in if xcor e1 < player_x e1 - off_from_player e1 then e1\<lparr>b_move := Some leg_right\<rparr> else e1)"

definition blocker_move :: "BlockerEnemy \<Rightarrow> error + BlockerEnemy" where
  "blocker_move e =
     (case b_move e of
        None \<Rightarrow> Inl TypeError
      | Some leg_up \<Rightarrow> Inr (blocker_up e)
      | Some leg_right \<Rightarrow> Inr (blocker_right e)
      | Some leg_down \<Rightarrow> Inr (blocker_down e)
      | Some leg_left \<Rightarrow> Inr (blocker_left e))"

definition BlockerEnemy_update :: "BlockerEnemy \<Rightarrow> Game \<Rightarrow> error + (BlockerEnemy \<times> Game)" where
  "BlockerEnemy_update e g =
     err_bind (blocker_move e) (\<lambda>e1.
       Inr (e1, if hits_player e1 g then game_over_lose g else g))"

text \<open>
  Repeated updates of one enemy.  The game may change between two updates (the
  player moves, other enemies end the game), so the run takes the game each
  update sees; the game an update returns is the concern of the game loop.
\<close>

fun fencing_run :: "Game list \<Rightarrow> FencingEnemy \<Rightarrow> error + FencingEnemy" where
  "fencing_run [] e = Inr e"
| "fencing_run (g # gs) e =
     err_bind (FencingEnemy_update e g) (\<lambda>(e1, g1). fencing_run gs e1)"

fun blocker_run :: "Game list \<Rightarrow> BlockerEnemy \<Rightarrow> error + BlockerEnemy" where
  "blocker_run [] e = Inr e"
| "blocker_run (g # gs) e =
     err_bind (BlockerEnemy_update e g) (\<lambda>(e1, g1). blocker_run gs e1)"

subsection \<open>Dispatch over the enemy classes\<close>







definition Enemy_create :: "nat \<Rightarrow> nat \<Rightarrow> enemy \<Rightarrow> Game \<Rightarrow> error + (enemy \<times> Game)" where
  "Enemy_create d1 d2 en g =
     (case en of
        RandomWalk e \<Rightarrow>
          err_bind (RandomWalkEnemy_create d1 d2 e g) (\<lambda>(e1, g1). Inr (RandomWalk e1, g1))
      | Chasing e \<Rightarrow>
          err_bind (ChasingEnemy_create d1 d2 e g) (\<lambda>(e1, g1). Inr (Chasing e1, g1))
      | Fencing e \<Rightarrow>
          err_bind (FencingEnemy_create d1 e g) (\<lambda>(e1, g1). Inr (Fencing e1, g1))
      | Blocker e \<Rightarrow>
          err_bind (BlockerEnemy_create d1 e g) (\<lambda>(e1, g1). Inr (Blocker e1, g1)))"


section \<open>The game: elements, spawning, the loop\<close>

text \<open>
  The creation hooks of the three fixed elements: the waypoint draws two green
  lines, the home a brown rectangle, the player gets a fresh turtle (at the
  origin, heading 0).
\<close>

definition Element_create :: "nat \<Rightarrow> nat \<Rightarrow> element \<Rightarrow> Game \<Rightarrow> error + (element \<times> Game)" where
  "Element_create d1 d2 el g =
     (case el of
        ElemWaypoint \<Rightarrow> Inr (el, create_item (Line ''green'') (create_item (Line ''green'') g))
      | ElemHome \<Rightarrow> Inr (el, create_item (Rectangle ''brown'') g)
      | ElemPlayer \<Rightarrow> Inr (el, g\<lparr>player := (player g)\<lparr>xcor := 0, ycor := 0, heading := 0\<rparr>\<rparr>)
      | ElemEnemy en \<Rightarrow> err_bind (Enemy_create d1 d2 en g) (\<lambda>(en1, g1). Inr (ElemEnemy en1, g1)))"

text \<open>
  Modelled from the spec: \<^verbatim>\<open>Game.add_element\<close> is a method of gamelib, whose code
  is not part of \<^verbatim>\<open>turtle_adventure.py\<close>.  The spec: it "registers an entity, calling
  its creation hook before the first tick in which it participates".  \<open>d1\<close> and
  \<open>d2\<close> are the draws of the creation hook.
\<close>

definition add_element :: "nat \<Rightarrow> nat \<Rightarrow> element \<Rightarrow> Game \<Rightarrow> error + Game" where
  "add_element d1 d2 el g =
     err_bind (Element_create d1 d2 el g) (\<lambda>(el1, g1).
       Inr (g1\<lparr>elements := elements g1 @ [el1]\<rparr>))"

definition add_enemy_factory :: "kind \<Rightarrow> string \<Rightarrow> Game \<Rightarrow> Game" where
  "add_enemy_factory k col g =
     g\<lparr>enemies_factory := enemies_factory g @ [k], enemies_color := enemies_color g @ [col]\<rparr>"

text \<open>\<^verbatim>\<open>EnemyGenerator.__init__\<close> schedules the first spawn.\<close>

definition EnemyGenerator_init :: "Game \<Rightarrow> Game" where
  "EnemyGenerator_init g = after 100 CreateEnemy g"






text \<open>\<^verbatim>\<open>TurtleAdventureGame.init_game\<close>, on the game object its constructor has filled in.\<close>

definition init_game :: "Game \<Rightarrow> error + Game" where
  "init_game g =
     err_bind (add_element 0 0 ElemWaypoint
                 (g\<lparr>waypoint := \<lparr>xcor = 0, ycor = 0, is_active = False\<rparr>\<rparr>)) (\<lambda>g1.
     err_bind (add_element 0 0 ElemHome
                 (g1\<lparr>home := \<lparr>xcor = real_of_int (screen_width g1 - 100),
                                ycor = real_of_int (screen_height g1 div 2),
                                home_size = 20\<rparr>\<rparr>)) (\<lambda>g2.
     err_bind (add_element 0 0 ElemPlayer
                 (g2\<lparr>player := \<lparr>xcor = 0, ycor = 0, player_speed = 5, heading = 0\<rparr>\<rparr>)) (\<lambda>g3.
       (let g4 = EnemyGenerator_init g3;
            g5 = add_enemy_factory KRandomWalk ''red'' g4;
            g6 = add_enemy_factory KChasing ''green'' g5;
            g7 = add_enemy_factory KFencing ''blue'' g6;
            g8 = add_enemy_factory KBlocker ''yellow'' g7
        in Inr (g8\<lparr>player := (player g8)\<lparr>xcor := 50,
                      ycor := real_of_int (screen_height g8 div 2)\<rparr>\<rparr>)))))"




text \<open>
  The game object before \<^verbatim>\<open>init_game\<close> runs: the fields the constructor of
  \<^verbatim>\<open>TurtleAdventureGame\<close> assigns, an empty element list and canvas, no callback
  queued.  Waypoint, player and home are assigned by \<^verbatim>\<open>init_game\<close>.
\<close>

definition new_game :: "int \<Rightarrow> int \<Rightarrow> int \<Rightarrow> Game" where
  "new_game w h lvl =
     \<lparr>level = lvl, screen_width = w, screen_height = h,
      waypoint = \<lparr>xcor = 0, ycor = 0, is_active = False\<rparr>,
      player = \<lparr>xcor = 0, ycor = 0, player_speed = 5, heading = 0\<rparr>,
      home = \<lparr>xcor = 0, ycor = 0, home_size = 0\<rparr>,
      enemies_factory = [], enemies_color = [],
      elements = [], is_stopped = False, canvas = [], now = 0, timers = []\<rparr>"

text \<open>
  The session of the spec's scenarios, as \<^verbatim>\<open>init_game\<close> leaves it: an arena of 800
  by 600, level 1.
\<close>

definition session :: Game where
  "session =
     \<lparr>level = 1, screen_width = 800, screen_height = 600,
      waypoint = \<lparr>xcor = 0, ycor = 0, is_active = False\<rparr>,
      player = \<lparr>xcor = 50, ycor = 300, player_speed = 5, heading = 0\<rparr>,
      home = \<lparr>xcor = 700, ycor = 300, home_size = 20\<rparr>,
      enemies_factory = [KRandomWalk, KChasing, KFencing, KBlocker],
      enemies_color = [''red'', ''green'', ''blue'', ''yellow''],
      elements = [ElemWaypoint, ElemHome, ElemPlayer], is_stopped = False,
      canvas = [Line ''green'', Line ''green'', Rectangle ''brown''],
      now = 0, timers = [(100, CreateEnemy)]\<rparr>"

text \<open>The binding of the mouse click: \<^verbatim>\<open>lambda e: self.waypoint.activate(e.x, e.y)\<close>.\<close>

definition click :: "real \<Rightarrow> real \<Rightarrow> Game \<Rightarrow> Game" where
  "click ex ey g = g\<lparr>waypoint := activate ex ey (waypoint g)\<rparr>"

text \<open>Assigning \<^verbatim>\<open>player.x\<close> and \<^verbatim>\<open>player.y\<close>, and an enemy's \<^verbatim>\<open>x\<close> and \<^verbatim>\<open>y\<close>.\<close>

definition player_at :: "real \<Rightarrow> real \<Rightarrow> Game \<Rightarrow> Game" where
  "player_at px py g = g\<lparr>player := (player g)\<lparr>xcor := px, ycor := py\<rparr>\<rparr>"

definition chaser_at :: "real \<Rightarrow> real \<Rightarrow> ChasingEnemy" where
  "chaser_at ex ey = (ChasingEnemy_init session 20 ''green'')\<lparr>xcor := ex, ycor := ey\<rparr>"

section \<open>The patrols of FencingEnemy and BlockerEnemy\<close>

text \<open>
  The leg each method of \<^verbatim>\<open>FencingEnemy\<close> assigns to \<^verbatim>\<open>self.move\<close> when its
  boundary is crossed, and the same for \<^verbatim>\<open>BlockerEnemy\<close>.
\<close>

definition fencing_next :: "leg \<Rightarrow> leg" where
  "fencing_next l =
     (case l of leg_up \<Rightarrow> leg_right | leg_right \<Rightarrow> leg_down
              | leg_down \<Rightarrow> leg_left | leg_left \<Rightarrow> leg_up)"

definition blocker_next :: "leg \<Rightarrow> leg" where
  "blocker_next l =
     (case l of leg_up \<Rightarrow> leg_down | leg_right \<Rightarrow> leg_left
              | leg_down \<Rightarrow> leg_up | leg_left \<Rightarrow> leg_right)"

text \<open>The moves of \<open>n\<close> updates, without the hit tests.\<close>

fun fencing_moves :: "nat \<Rightarrow> FencingEnemy \<Rightarrow> error + FencingEnemy" where
  "fencing_moves 0 e = Inr e"
| "fencing_moves (Suc n) e = err_bind (fencing_move e) (fencing_moves n)"

text \<open>
  What holds of a fencing enemy on its patrol: on each leg the coordinate it
  moves along has not yet crossed the leg's boundary, and the other coordinate
  lies between the boundary it crossed last and one step beyond it.
\<close>

definition fencing_inv :: "FencingEnemy \<Rightarrow> bool" where
  "fencing_inv e =
     (f_speed e = 2 \<and> off_from_home e = 60 \<and>
      (case f_move e of
         None \<Rightarrow> False
       | Some leg_left \<Rightarrow>
           homex e - 60 \<le> xcor e \<and> xcor e \<le> homex e + 62 \<and>
           homey e + 60 \<le> ycor e \<and> ycor e \<le> homey e + 62
       | Some leg_up \<Rightarrow>
           homey e - 60 \<le> ycor e \<and> ycor e \<le> homey e + 62 \<and>
           homex e - 62 \<le> xcor e \<and> xcor e \<le> homex e - 60
       | Some leg_right \<Rightarrow>
           homex e - 62 \<le> xcor e \<and> xcor e \<le> homex e + 60 \<and>
           homey e - 62 \<le> ycor e \<and> ycor e \<le> homey e - 60
       | Some leg_down \<Rightarrow>
           homey e - 62 \<le> ycor e \<and> ycor e \<le> homey e + 60 \<and>
           homex e + 60 \<le> xcor e \<and> xcor e \<le> homex e + 62))"

text \<open>How far the enemy is from the boundary of its leg, along the leg.\<close>

definition fencing_rem :: "FencingEnemy \<Rightarrow> real" where
  "fencing_rem e =
     (case f_move e of
        None \<Rightarrow> 0
      | Some leg_left \<Rightarrow> xcor e - (homex e - off_from_home e)
      | Some leg_up \<Rightarrow> ycor e - (homey e - off_from_home e)
      | Some leg_right \<Rightarrow> (homex e + off_from_home e) - xcor e
      | Some leg_down \<Rightarrow> (homey e + off_from_home e) - ycor e)"

text \<open>The fencing enemy with the same position, speed, anchor, half-width and leg.\<close>

definition as_fencing :: "BlockerEnemy \<Rightarrow> FencingEnemy" where
  "as_fencing e =
     \<lparr>xcor = xcor e, ycor = ycor e, enemy_size = enemy_size e, color = color e,
      f_speed = b_speed e, homex = player_x e, homey = player_y e,
      off_from_home = off_from_player e, f_move = b_move e\<rparr>"

text \<open>
  The fencing enemy of the session that starts on the lower edge (entry 0 of
  \<^verbatim>\<open>pos\<close>), as its creation hook leaves it.
\<close>

definition fencer_start :: FencingEnemy where
  "fencer_start =
     (FencingEnemy_init session 20 ''blue'')\<lparr>xcor := 700, ycor := 360, f_move := Some leg_left\<rparr>"



text \<open>Examples: a random-walk enemy about to reach the top, and the draws of a spawn.\<close>

definition walker :: RandomWalkEnemy where
  "walker =
     \<lparr>xcor = 100, ycor = 5, enemy_size = 20, color = ''red'',
      rw_speed = 5, xmove = x_right, ymove = y_up\<rparr>"



section \<open>Properties\<close>

subsection \<open>Geometry of one step towards a point\<close>

lemma sqrt_ratio:
  fixes x y :: real
  assumes "x \<noteq> 0"
  shows "sqrt (1 + (y / x)\<^sup>2) = sqrt (x\<^sup>2 + y\<^sup>2) / \<bar>x\<bar>"
proof -
  have "1 + (y / x)\<^sup>2 = (x\<^sup>2 + y\<^sup>2) / x\<^sup>2"
    using assms by (simp add: field_simps power_divide)
  then show ?thesis
    by (simp add: real_sqrt_divide)
qed

lemma cos_atan2: "x \<noteq> 0 \<or> y \<noteq> 0 \<Longrightarrow> cos (atan2 y x) = x / sqrt (x\<^sup>2 + y\<^sup>2)"
  by (auto simp add: atan2_def cos_arctan sqrt_ratio)

lemma sin_atan2: "x \<noteq> 0 \<or> y \<noteq> 0 \<Longrightarrow> sin (atan2 y x) = y / sqrt (x\<^sup>2 + y\<^sup>2)"
  by (auto simp add: atan2_def sin_arctan sqrt_ratio)

text \<open>
  Moving \<open>s\<close> along the direction of the vector \<open>(u, v)\<close> leaves a vector of length
  \<open>|r - s|\<close>, where \<open>r\<close> is the length of \<open>(u, v)\<close>.
\<close>

lemma step_towards:
  fixes u v s :: real
  assumes nz: "u \<noteq> 0 \<or> v \<noteq> 0"
  shows "sqrt ((u - s * cos (atan2 v u))\<^sup>2 + (v - s * sin (atan2 v u))\<^sup>2)
           = \<bar>sqrt (u\<^sup>2 + v\<^sup>2) - s\<bar>"
proof -
  define r where "r = sqrt (u\<^sup>2 + v\<^sup>2)"
  have rpos: "0 < r"
    using nz unfolding r_def by (auto simp add: sum_power2_gt_zero_iff)
  have r2: "r\<^sup>2 = u\<^sup>2 + v\<^sup>2"
    unfolding r_def by simp
  have c: "cos (atan2 v u) = u / r" and s: "sin (atan2 v u) = v / r"
    using nz by (simp_all add: cos_atan2 sin_atan2 r_def)
  have "u - s * (u / r) = u * (1 - s / r)" and "v - s * (v / r) = v * (1 - s / r)"
    by (simp_all add: algebra_simps)
  then have "(u - s * (u / r))\<^sup>2 + (v - s * (v / r))\<^sup>2 = ((1 - s / r))\<^sup>2 * (u\<^sup>2 + v\<^sup>2)"
    by (simp only: power_mult_distrib distrib_left mult.commute)
  also have "\<dots> = ((1 - s / r) * r)\<^sup>2"
    by (simp add: power_mult_distrib r2)
  also have "(1 - s / r) * r = r - s"
    using rpos by (simp add: field_simps)
  finally have "sqrt ((u - s * (u / r))\<^sup>2 + (v - s * (v / r))\<^sup>2) = \<bar>r - s\<bar>"
    by simp
  then show ?thesis
    by (simp add: c s r_def)
qed

lemma chasing_position:
  assumes nz: "xcor (player g) - xcor e \<noteq> 0 \<or> ycor (player g) - ycor e \<noteq> 0"
  shows "xcor (fst (ChasingEnemy_update e g))
           = xcor e + ch_speed e * ((xcor (player g) - xcor e)
                                     / distance e (xcor (player g)) (ycor (player g)))"
    and "ycor (fst (ChasingEnemy_update e g))
           = ycor e + ch_speed e * ((ycor (player g) - ycor e)
                                     / distance e (xcor (player g)) (ycor (player g)))"
  using nz
  by (simp_all add: ChasingEnemy_update_def Let_def distance_def cos_atan2 sin_atan2)

lemma distance_pos:
  "xcor (player g) - xcor e \<noteq> 0 \<or> ycor (player g) - ycor e \<noteq> 0 \<Longrightarrow>
   0 < distance e (xcor (player g)) (ycor (player g))"
  by (auto simp add: distance_def sum_power2_gt_zero_iff)

lemma scaled_length:
  fixes u v k r :: real
  assumes "r = sqrt (u\<^sup>2 + v\<^sup>2)"
  shows "sqrt ((k * u)\<^sup>2 + (k * v)\<^sup>2) = \<bar>k\<bar> * r"
proof -
  have "(k * u)\<^sup>2 + (k * v)\<^sup>2 = k\<^sup>2 * (u\<^sup>2 + v\<^sup>2)"
    by (simp add: power_mult_distrib distrib_left)
  then show ?thesis
    by (simp add: real_sqrt_mult assms)
qed

lemma sqrt_3600: "sqrt 3600 = 60"
  using real_sqrt_abs [of 60] by simp

lemma game_over_win_fields [simp]:
  "player (game_over_win g) = player g"
  "waypoint (game_over_win g) = waypoint g"
  "home (game_over_win g) = home g"
  by (simp_all add: game_over_win_def stop_def create_item_def Let_def)

lemma turtle_speed [simp]:
  "player_speed (setheading a t) = player_speed t"
  "player_speed (forward l t) = player_speed t"
  by (simp_all add: setheading_def forward_def)

subsection \<open>Error plumbing and the patrol invariant\<close>

lemma err_bind_simps [simp]:
  "err_bind (Inl x) f = Inl x" "err_bind (Inr v) f = f v"
  by (simp_all add: err_bind_def)

lemma fencing_run_moves: "fencing_run gs e = fencing_moves (length gs) e"
proof (induction gs arbitrary: e)
  case Nil
  show ?case by simp
next
  case (Cons g gs)
  show ?case
    by (cases "fencing_move e") (simp_all add: FencingEnemy_update_def Cons.IH)
qed

lemma fencing_moves_add:
  "fencing_moves (m + n) e = err_bind (fencing_moves m e) (fencing_moves n)"
proof (induction m arbitrary: e)
  case 0
  show ?case by simp
next
  case (Suc m)
  show ?case
    by (cases "fencing_move e") (simp_all add: Suc.IH)
qed

lemma fencing_move_inv:
  assumes "fencing_inv e"
  shows "\<exists>e1. fencing_move e = Inr e1 \<and> fencing_inv e1
           \<and> homex e1 = homex e \<and> homey e1 = homey e"
proof -
  obtain l where l: "f_move e = Some l"
    using assms by (auto simp add: fencing_inv_def split: option.splits)
  show ?thesis
    using assms l
    by (cases l)
      (auto simp add: fencing_inv_def fencing_move_def fencing_up_def fencing_right_def
        fencing_down_def fencing_left_def Let_def)
qed

lemma fencing_moves_inv:
  "fencing_inv e \<Longrightarrow> \<exists>e1. fencing_moves n e = Inr e1 \<and> fencing_inv e1
           \<and> homex e1 = homex e \<and> homey e1 = homey e"
proof (induction n arbitrary: e)
  case 0
  then show ?case by simp
next
  case (Suc n)
  from fencing_move_inv [OF Suc.prems] obtain e1 where
    e1: "fencing_move e = Inr e1" "fencing_inv e1" "homex e1 = homex e" "homey e1 = homey e"
    by blast
  from Suc.IH [OF e1(2)] e1 show ?case
    by auto
qed

lemma fencing_inv_bounds:
  "fencing_inv e \<Longrightarrow> \<bar>xcor e - homex e\<bar> \<le> 62 \<and> \<bar>ycor e - homey e\<bar> \<le> 62"
  by (auto simp add: fencing_inv_def split: option.splits leg.splits)

lemma fencing_create_inv:
  assumes "FencingEnemy_create d (FencingEnemy_init g sz col) g2 = Inr (e, g3)"
  shows "fencing_inv e \<and> homex e = xcor (home g) \<and> homey e = ycor (home g)"
proof -
  have "int d mod 4 = 0 \<or> int d mod 4 = 1 \<or> int d mod 4 = 2 \<or> int d mod 4 = 3"
    by presburger
  then show ?thesis
    using assms
    by (auto simp add: FencingEnemy_create_def FencingEnemy_init_def randint_def fencing_pos_def
        fencing_inv_def Let_def)
qed

lemma fencing_step:
  assumes "fencing_inv e" and "f_move e = Some l"
  shows "\<exists>e1. fencing_move e = Inr e1 \<and> fencing_inv e1 \<and>
           (if fencing_rem e < 2 then f_move e1 = Some (fencing_next l)
            else f_move e1 = Some l \<and> fencing_rem e1 = fencing_rem e - 2)"
  using assms
  by (cases l)
    (auto simp add: fencing_inv_def fencing_move_def fencing_up_def fencing_right_def
      fencing_down_def fencing_left_def fencing_rem_def fencing_next_def Let_def)

lemma fencing_progress:
  "fencing_inv e \<Longrightarrow> f_move e = Some l \<Longrightarrow> fencing_rem e < 2 * real k \<Longrightarrow>
   \<exists>n. 1 \<le> n \<and> n \<le> k
     \<and> (\<forall>m<n. \<exists>e'. fencing_moves m e = Inr e' \<and> f_move e' = Some l)
     \<and> (\<exists>e'. fencing_moves n e = Inr e' \<and> f_move e' = Some (fencing_next l))"
proof (induction k arbitrary: e)
  case 0
  then have "fencing_rem e < 0" by simp
  moreover have "0 \<le> fencing_rem e"
    using "0.prems"(1,2)
    by (cases l) (auto simp add: fencing_inv_def fencing_rem_def)
  ultimately show ?case by simp
next
  case (Suc k)
  from fencing_step [OF Suc.prems(1,2)] obtain e1 where
    e1: "fencing_move e = Inr e1" "fencing_inv e1"
      "if fencing_rem e < 2 then f_move e1 = Some (fencing_next l)
       else f_move e1 = Some l \<and> fencing_rem e1 = fencing_rem e - 2"
    by blast
  show ?case
  proof (cases "fencing_rem e < 2")
    case True
    with e1 have nx: "f_move e1 = Some (fencing_next l)" by simp
    have "\<forall>m<Suc 0. \<exists>e'. fencing_moves m e = Inr e' \<and> f_move e' = Some l"
      using Suc.prems(2) by simp
    moreover have "\<exists>e'. fencing_moves (Suc 0) e = Inr e' \<and> f_move e' = Some (fencing_next l)"
      using e1(1) nx by simp
    ultimately show ?thesis
      by (intro exI [of _ "Suc 0"]) simp
  next
    case False
    with e1 have same: "f_move e1 = Some l" and rem: "fencing_rem e1 = fencing_rem e - 2"
      by simp_all
    from rem Suc.prems(3) have "fencing_rem e1 < 2 * real k"
      by simp
    from Suc.IH [OF e1(2) same this] obtain n where
      n: "1 \<le> n" "n \<le> k"
        "\<forall>m<n. \<exists>e'. fencing_moves m e1 = Inr e' \<and> f_move e' = Some l"
        "\<exists>e'. fencing_moves n e1 = Inr e' \<and> f_move e' = Some (fencing_next l)"
      by blast
    have "\<forall>m<Suc n. \<exists>e'. fencing_moves m e = Inr e' \<and> f_move e' = Some l"
    proof (intro allI impI)
      fix m assume m: "m < Suc n"
      show "\<exists>e'. fencing_moves m e = Inr e' \<and> f_move e' = Some l"
      proof (cases m)
        case 0
        then show ?thesis using Suc.prems(2) by simp
      next
        case (Suc j)
        with m have "j < n" by simp
        with n(3) Suc e1(1) show ?thesis by simp
      qed
    qed
    moreover have "\<exists>e'. fencing_moves (Suc n) e = Inr e' \<and> f_move e' = Some (fencing_next l)"
      using n(4) e1(1) by simp
    ultimately show ?thesis
      using n(1,2) by (intro exI [of _ "Suc n"]) simp
  qed
qed

lemma fencing_inv_rem: "fencing_inv e \<Longrightarrow> fencing_rem e < 2 * real (62::nat)"
  by (auto simp add: fencing_inv_def fencing_rem_def split: option.splits leg.splits)

lemma fencing_run_append:
  "fencing_run (gs @ hs) e = err_bind (fencing_run gs e) (fencing_run hs)"
proof -
  have "fencing_run hs = fencing_moves (length hs)"
    by (rule ext) (rule fencing_run_moves)
  then show ?thesis
    by (simp add: fencing_run_moves fencing_moves_add)
qed

lemma fencing_left_run:
  "f_move e = Some leg_left \<Longrightarrow> homex e - off_from_home e \<le> xcor e - real n * f_speed e \<Longrightarrow>
   0 \<le> f_speed e \<Longrightarrow>
   fencing_moves n e = Inr (e\<lparr>xcor := xcor e - real n * f_speed e\<rparr>)"
proof (induction n arbitrary: e)
  case 0
  show ?case by simp
next
  case (Suc n)
  have "0 \<le> real n * f_speed e"
    using Suc.prems(3) by simp
  with Suc.prems(2) have "homex e - off_from_home e \<le> xcor e - f_speed e"
    by (simp add: algebra_simps)
  then have step: "fencing_move e = Inr (e\<lparr>xcor := xcor e - f_speed e\<rparr>)"
    using Suc.prems(1) by (simp add: fencing_move_def fencing_left_def Let_def)
  have "fencing_moves n (e\<lparr>xcor := xcor e - f_speed e\<rparr>)
          = Inr (e\<lparr>xcor := xcor e - f_speed e\<rparr>\<lparr>xcor := xcor (e\<lparr>xcor := xcor e - f_speed e\<rparr>) - real n * f_speed (e\<lparr>xcor := xcor e - f_speed e\<rparr>)\<rparr>)"
    using Suc.prems by (intro Suc.IH) (simp_all add: algebra_simps)
  with step show ?case
    by (simp add: algebra_simps)
qed

lemma blocker_step:
  "\<exists>e1 f1. blocker_move (e\<lparr>b_move := Some l\<rparr>) = Inr e1
      \<and> fencing_move (as_fencing (e\<lparr>b_move := Some l\<rparr>)) = Inr f1
      \<and> BlockerEnemy_update (e\<lparr>b_move := Some l\<rparr>) g2
          = Inr (e1, if hits_player e1 g2 then game_over_lose g2 else g2)
      \<and> xcor e1 = xcor f1 \<and> ycor e1 = ycor f1
      \<and> player_x e1 = player_x e \<and> player_y e1 = player_y e
      \<and> b_speed e1 = b_speed e \<and> off_from_player e1 = off_from_player e
      \<and> (f_move f1 = Some l \<and> b_move e1 = Some l
           \<or> f_move f1 = Some (fencing_next l) \<and> b_move e1 = Some (blocker_next l))"
  by (cases l)
    (simp_all add: blocker_move_def fencing_move_def as_fencing_def BlockerEnemy_update_def
      blocker_up_def blocker_right_def blocker_down_def blocker_left_def
      fencing_up_def fencing_right_def fencing_down_def fencing_left_def
      fencing_next_def blocker_next_def Let_def)

lemma blocker_legs:
  "blocker_move (e\<lparr>b_move := Some leg_up\<rparr>)
     = Inr (e\<lparr>ycor := ycor e - b_speed e,
              b_move := Some (if ycor e - b_speed e < player_y e - off_from_player e
                              then leg_down else leg_up)\<rparr>)"
  "blocker_move (e\<lparr>b_move := Some leg_right\<rparr>)
     = Inr (e\<lparr>xcor := xcor e + b_speed e,
              b_move := Some (if xcor e + b_speed e > player_x e + off_from_player e
                              then leg_left else leg_right)\<rparr>)"
  "blocker_move (e\<lparr>b_move := Some leg_down\<rparr>)
     = Inr (e\<lparr>ycor := ycor e + b_speed e,
              b_move := Some (if ycor e + b_speed e > player_y e + off_from_player e
                              then leg_up else leg_down)\<rparr>)"
  "blocker_move (e\<lparr>b_move := Some leg_left\<rparr>)
     = Inr (e\<lparr>xcor := xcor e - b_speed e,
              b_move := Some (if xcor e - b_speed e < player_x e - off_from_player e
                              then leg_right else leg_left)\<rparr>)"
  by (simp_all add: blocker_move_def blocker_up_def blocker_right_def blocker_down_def
      blocker_left_def Let_def)

lemma blocker_run_anchor:
  "b_move e = Some l \<Longrightarrow>
   \<exists>e'. blocker_run gs e = Inr e' \<and> player_x e' = player_x e \<and> player_y e' = player_y e
     \<and> b_speed e' = b_speed e \<and> off_from_player e' = off_from_player e"
proof (induction gs arbitrary: e l)
  case Nil
  show ?case by simp
next
  case (Cons g gs)
  have "e\<lparr>b_move := Some l\<rparr> = e"
    using Cons.prems by simp
  with blocker_step [where e = e and l = l and ?g2.0 = g] obtain e1 where
    e1: "BlockerEnemy_update e g = Inr (e1, if hits_player e1 g then game_over_lose g else g)"
      "player_x e1 = player_x e" "player_y e1 = player_y e"
      "b_speed e1 = b_speed e" "off_from_player e1 = off_from_player e"
      "b_move e1 = Some l \<or> b_move e1 = Some (blocker_next l)"
    by auto
  from e1(6) obtain l1 where "b_move e1 = Some l1"
    by blast
  from Cons.IH [OF this] e1 show ?case
    by auto
qed

lemma blocker_create:
  "\<exists>e1 l. BlockerEnemy_create d e g2 = Inr (e1, create_item (Rectangle (color e)) g2)
     \<and> b_move e1 = Some l \<and> ((xcor e1, ycor e1), l) \<in> set (blocker_pos e)
     \<and> player_x e1 = player_x e \<and> player_y e1 = player_y e
     \<and> b_speed e1 = b_speed e \<and> off_from_player e1 = off_from_player e"
proof -
  let ?i = "nat (int d mod 4)"
  have i: "?i < length (blocker_pos e)"
    by (simp add: blocker_pos_def)
  have "BlockerEnemy_create d e g2
      = Inr (e\<lparr>xcor := fst (fst (blocker_pos e ! ?i)), ycor := snd (fst (blocker_pos e ! ?i)),
                b_move := Some (snd (blocker_pos e ! ?i))\<rparr>,
             create_item (Rectangle (color e)) g2)"
    by (simp add: BlockerEnemy_create_def randint_def Let_def)
  with nth_mem [OF i] show ?thesis
    by simp
qed

subsection \<open>Draws, the session, the random walk\<close>

lemma randint_range:
  assumes "a \<le> b"
  shows "\<exists>v. randint a b d = Inr v \<and> a \<le> v \<and> v \<le> b \<and> v = a + int d mod (b - a + 1)"
proof -
  from assms have "0 < b - a + 1" by simp
  then have "0 \<le> int d mod (b - a + 1)" and "int d mod (b - a + 1) < b - a + 1"
    by (simp_all only: pos_mod_sign pos_mod_bound)
  with assms show ?thesis
    by (simp add: randint_def)
qed

lemma randint_hits:
  "a \<le> v \<Longrightarrow> v \<le> b \<Longrightarrow> randint a b (nat (v - a)) = Inr v"
  by (simp add: randint_def)

lemma init_session: "init_game (new_game 800 600 1) = Inr session"
  by (simp add: init_game_def new_game_def session_def add_element_def Element_create_def
      create_item_def EnemyGenerator_init_def after_def add_enemy_factory_def Let_def)

lemma rw_general:
  "xcor (fst (RandomWalkEnemy_update e g))
     = (if xmove e = x_left then xcor e - real_of_int (rw_speed e) else xcor e + real_of_int (rw_speed e))
   \<and> ycor (fst (RandomWalkEnemy_update e g))
     = (if ymove e = y_up then ycor e - real_of_int (rw_speed e) else ycor e + real_of_int (rw_speed e))
   \<and> rw_speed (fst (RandomWalkEnemy_update e g)) = rw_speed e
   \<and> (xmove (fst (RandomWalkEnemy_update e g)) \<noteq> xmove e)
       = (if xmove e = x_left then xcor (fst (RandomWalkEnemy_update e g)) < 0
          else xcor (fst (RandomWalkEnemy_update e g)) > real_of_int (screen_width g))
   \<and> (ymove (fst (RandomWalkEnemy_update e g)) \<noteq> ymove e)
       = (if ymove e = y_up then ycor (fst (RandomWalkEnemy_update e g)) \<le> 0
          else ycor (fst (RandomWalkEnemy_update e g)) > real_of_int (screen_height g))"
  by (cases "xmove e"; cases "ymove e")
    (simp_all add: RandomWalkEnemy_update_def rw_x_left_def rw_x_right_def rw_y_up_def
      rw_y_down_def Let_def)

lemma rw_init:
  "\<exists>e0. RandomWalkEnemy_init g sz col d = Inr e0 \<and> 1 \<le> rw_speed e0 \<and> rw_speed e0 \<le> 5
     \<and> xmove e0 = x_right \<and> ymove e0 = y_down"
  by (simp add: RandomWalkEnemy_init_def randint_def)

lemma create_draws_pos:
  assumes "0 < screen_width g"
  shows "(\<exists>x1 y1. randint 0 (screen_width g - 1) d1 = Inr x1
           \<and> randint 0 (screen_width g - 1) d2 = Inr y1
           \<and> 0 \<le> x1 \<and> x1 \<le> screen_width g - 1 \<and> 0 \<le> y1 \<and> y1 \<le> screen_width g - 1
           \<and> RandomWalkEnemy_create d1 d2 e g
               = Inr (e\<lparr>xcor := real_of_int x1, ycor := real_of_int y1\<rparr>,
                      create_item (Oval (color e)) g)
           \<and> ChasingEnemy_create d1 d2 c g
               = Inr (c\<lparr>xcor := real_of_int x1, ycor := real_of_int y1\<rparr>,
                      create_item (Rectangle (color c)) g)
           \<and> (screen_width g - 1 < screen_height g \<longrightarrow> y1 < screen_height g))
       \<and> (\<forall>a b. 0 \<le> a \<and> a \<le> screen_width g - 1 \<and> 0 \<le> b \<and> b \<le> screen_width g - 1 \<longrightarrow>
             RandomWalkEnemy_create (nat a) (nat b) e g
               = Inr (e\<lparr>xcor := real_of_int a, ycor := real_of_int b\<rparr>,
                      create_item (Oval (color e)) g)
           \<and> ChasingEnemy_create (nat a) (nat b) c g
               = Inr (c\<lparr>xcor := real_of_int a, ycor := real_of_int b\<rparr>,
                      create_item (Rectangle (color c)) g))
       \<and> (screen_height g < screen_width g - 1 \<longrightarrow>
             (\<exists>d y. randint 0 (screen_width g - 1) d = Inr y \<and> screen_height g < y))"
proof -
  let ?w = "screen_width g"
  from assms have le: "0 \<le> ?w - 1" by simp
  obtain x1 where x1: "randint 0 (?w - 1) d1 = Inr x1" "0 \<le> x1" "x1 \<le> ?w - 1"
    using randint_range [OF le, of d1] by blast
  obtain y1 where y1: "randint 0 (?w - 1) d2 = Inr y1" "0 \<le> y1" "y1 \<le> ?w - 1"
    using randint_range [OF le, of d2] by blast
  have top: "randint 0 (?w - 1) (nat (?w - 1)) = Inr (?w - 1)"
    using randint_hits [of 0 "?w - 1" "?w - 1"] le by simp
  have rw: "RandomWalkEnemy_create d1 d2 e g
             = Inr (e\<lparr>xcor := real_of_int x1, ycor := real_of_int y1\<rparr>, create_item (Oval (color e)) g)"
    by (simp add: RandomWalkEnemy_create_def x1 y1)
  have ch: "ChasingEnemy_create d1 d2 c g
             = Inr (c\<lparr>xcor := real_of_int x1, ycor := real_of_int y1\<rparr>, create_item (Rectangle (color c)) g)"
    by (simp add: ChasingEnemy_create_def x1 y1)
  have every: "RandomWalkEnemy_create (nat a) (nat b) e g
               = Inr (e\<lparr>xcor := real_of_int a, ycor := real_of_int b\<rparr>, create_item (Oval (color e)) g)
           \<and> ChasingEnemy_create (nat a) (nat b) c g
               = Inr (c\<lparr>xcor := real_of_int a, ycor := real_of_int b\<rparr>, create_item (Rectangle (color c)) g)"
    if "0 \<le> a \<and> a \<le> ?w - 1 \<and> 0 \<le> b \<and> b \<le> ?w - 1" for a b
    using that randint_hits [of 0 a "?w - 1"] randint_hits [of 0 b "?w - 1"]
    by (simp add: RandomWalkEnemy_create_def ChasingEnemy_create_def)
  have above: "\<exists>d y. randint 0 (?w - 1) d = Inr y \<and> screen_height g < y"
    if "screen_height g < ?w - 1"
    using that top by blast
  have below: "y1 < screen_height g" if "?w - 1 < screen_height g"
    using that y1(3) by simp
  show ?thesis
    using rw ch x1 y1 every above below by blast
qed

subsection \<open>Spawning and the end of the game\<close>













subsection \<open>The claims\<close>

text \<open>
  C1 (as amended).  Let the player be at a position other than the chasing
  enemy's, at distance \<open>d\<close>, and let the enemy have the speed 3 its constructor
  gives it.  One update moves the enemy by 3 times the unit vector towards the
  player: its new position is the old one plus \<open>3 / d\<close> times the vector to the
  player, at distance exactly 3 from the old one, and the vector from the new
  position to the player is \<open>1 - 3 / d\<close> times the old one.  So the distance to
  the player becomes \<open>|d - 3|\<close>: for \<open>d \<ge> 3\<close> it decreases by exactly 3 and the
  enemy is strictly closer; for \<open>d < 3\<close> the factor is negative, the enemy has
  passed the player and is at distance \<open>3 - d\<close> beyond it.  (Over the reals.)
\<close>

theorem ChasingEnemy_update_distance:
  assumes "(xcor (player g), ycor (player g)) \<noteq> (xcor e, ycor e)"
    and "ch_speed e = 3"
  shows "xcor (fst (ChasingEnemy_update e g))
           = xcor e + 3 * ((xcor (player g) - xcor e)
                            / distance e (xcor (player g)) (ycor (player g)))
       \<and> ycor (fst (ChasingEnemy_update e g))
           = ycor e + 3 * ((ycor (player g) - ycor e)
                            / distance e (xcor (player g)) (ycor (player g)))
       \<and> distance (fst (ChasingEnemy_update e g)) (xcor e) (ycor e) = 3
       \<and> xcor (player g) - xcor (fst (ChasingEnemy_update e g))
           = (1 - 3 / distance e (xcor (player g)) (ycor (player g)))
             * (xcor (player g) - xcor e)
       \<and> ycor (player g) - ycor (fst (ChasingEnemy_update e g))
           = (1 - 3 / distance e (xcor (player g)) (ycor (player g)))
             * (ycor (player g) - ycor e)
       \<and> distance (fst (ChasingEnemy_update e g)) (xcor (player g)) (ycor (player g))
           = \<bar>distance e (xcor (player g)) (ycor (player g)) - 3\<bar>
       \<and> (3 \<le> distance e (xcor (player g)) (ycor (player g)) \<longrightarrow>
            distance (fst (ChasingEnemy_update e g)) (xcor (player g)) (ycor (player g))
              = distance e (xcor (player g)) (ycor (player g)) - 3
            \<and> distance (fst (ChasingEnemy_update e g)) (xcor (player g)) (ycor (player g))
              < distance e (xcor (player g)) (ycor (player g)))
       \<and> (distance e (xcor (player g)) (ycor (player g)) < 3 \<longrightarrow>
            1 - 3 / distance e (xcor (player g)) (ycor (player g)) < 0
            \<and> distance (fst (ChasingEnemy_update e g)) (xcor (player g)) (ycor (player g))
              = 3 - distance e (xcor (player g)) (ycor (player g)))
       \<and> ch_speed (fst (ChasingEnemy_update e g)) = 3"
proof -
  let ?u = "xcor (player g) - xcor e"
  let ?v = "ycor (player g) - ycor e"
  let ?d = "distance e (xcor (player g)) (ycor (player g))"
  let ?e = "fst (ChasingEnemy_update e g)"
  have nz: "?u \<noteq> 0 \<or> ?v \<noteq> 0"
    using assms(1) by auto
  have d: "?d = sqrt (?u\<^sup>2 + ?v\<^sup>2)"
    by (simp add: distance_def)
  have dpos: "0 < ?d"
    by (rule distance_pos [OF nz])
  have x: "xcor ?e = xcor e + 3 * (?u / ?d)" and y: "ycor ?e = ycor e + 3 * (?v / ?d)"
    using chasing_position [OF nz] assms(2) by simp_all
  have "distance ?e (xcor e) (ycor e) = sqrt (((- (3 / ?d)) * ?u)\<^sup>2 + ((- (3 / ?d)) * ?v)\<^sup>2)"
    by (simp add: distance_def x y)
  also have "\<dots> = \<bar>- (3 / ?d)\<bar> * ?d"
    by (rule scaled_length [OF d])
  also have "\<dots> = 3"
    using dpos by simp
  finally have moved: "distance ?e (xcor e) (ycor e) = 3" .
  have px: "xcor (player g) - xcor ?e = (1 - 3 / ?d) * ?u"
    and py: "ycor (player g) - ycor ?e = (1 - 3 / ?d) * ?v"
    by (simp_all add: x y algebra_simps)
  have "distance ?e (xcor (player g)) (ycor (player g))
          = sqrt (((1 - 3 / ?d) * ?u)\<^sup>2 + ((1 - 3 / ?d) * ?v)\<^sup>2)"
    unfolding px [symmetric] py [symmetric] by (simp add: distance_def)
  also have "\<dots> = \<bar>1 - 3 / ?d\<bar> * ?d"
    by (rule scaled_length [OF d])
  also have "\<dots> = \<bar>?d - 3\<bar>"
  proof -
    have "(1 - 3 / ?d) * ?d = ?d - 3"
      using dpos by (simp add: field_simps)
    then have "\<bar>?d - 3\<bar> = \<bar>1 - 3 / ?d\<bar> * \<bar>?d\<bar>"
      by (simp only: abs_mult [symmetric])
    with dpos show ?thesis by simp
  qed
  finally have left: "distance ?e (xcor (player g)) (ycor (player g)) = \<bar>?d - 3\<bar>" .
  have neg: "1 - 3 / ?d < 0" if "?d < 3"
    using that dpos by (simp add: field_simps)
  have sp: "ch_speed ?e = 3"
    using assms(2) by (simp add: ChasingEnemy_update_def Let_def)
  show ?thesis
    using x y moved px py left neg sp by simp
qed

text \<open>
  The spec's scenario: the chaser at (100, 100), the player at (100, 160); one
  update moves the chaser to (100, 103) and takes the distance from 60 to 57.
\<close>

theorem ChasingEnemy_update_distance_witness:
  "distance (chaser_at 100 100) 100 160 = 60
   \<and> fst (ChasingEnemy_update (chaser_at 100 100) (player_at 100 160 session))
       = (chaser_at 100 103)\<lparr>speedx := 0, speedy := 3\<rparr>
   \<and> distance (fst (ChasingEnemy_update (chaser_at 100 100) (player_at 100 160 session))) 100 160 = 57"
  using ChasingEnemy_update_distance [of "player_at 100 160 session" "chaser_at 100 100"]
  by (simp add: chaser_at_def ChasingEnemy_init_def player_at_def distance_def sqrt_3600
      ChasingEnemy_update_def Let_def atan2_def)

text \<open>
  C1 as stated fails when the enemy is nearer than its speed: at distance 1 one
  update takes the enemy from (100, 100) past the player at (100, 101) to
  (100, 103), at distance 2.
\<close>

theorem ChasingEnemy_update_overshoot:
  "distance (chaser_at 100 100) 100 101 = 1
   \<and> fst (ChasingEnemy_update (chaser_at 100 100) (player_at 100 101 session))
       = (chaser_at 100 103)\<lparr>speedx := 0, speedy := 3\<rparr>
   \<and> distance (fst (ChasingEnemy_update (chaser_at 100 100) (player_at 100 101 session))) 100 101 = 2"
  by (simp add: chaser_at_def ChasingEnemy_init_def player_at_def ChasingEnemy_update_def Let_def
      distance_def atan2_def)

text \<open>
  C2.  \<open>hits_player\<close> is true exactly when the player's x and y lie strictly inside
  the open intervals of half-width size/2 around the enemy's x and y;
  \<open>Home.contains\<close> is true exactly when the point lies in the closed intervals of
  half-width size/2 around the home's x and y.  So a point on the left edge of
  the home is contained exactly when its y is in the closed vertical range
  (likewise for the top edge), while a player on the left or the top edge of an
  enemy's box is never hit.
\<close>

theorem hits_player_open_contains_closed:
  "(hits_player e g =
      (xcor (player g) \<in> {xcor e - real_of_int (enemy_size e) / 2 <..< xcor e + real_of_int (enemy_size e) / 2}
       \<and> ycor (player g) \<in> {ycor e - real_of_int (enemy_size e) / 2 <..< ycor e + real_of_int (enemy_size e) / 2}))
   \<and> (contains h px py =
      (px \<in> {xcor h - real_of_int (home_size h) / 2 .. xcor h + real_of_int (home_size h) / 2}
       \<and> py \<in> {ycor h - real_of_int (home_size h) / 2 .. ycor h + real_of_int (home_size h) / 2}))
   \<and> (contains h (xcor h - real_of_int (home_size h) / 2) py =
      (py \<in> {ycor h - real_of_int (home_size h) / 2 .. ycor h + real_of_int (home_size h) / 2}))
   \<and> (contains h px (ycor h - real_of_int (home_size h) / 2) =
      (px \<in> {xcor h - real_of_int (home_size h) / 2 .. xcor h + real_of_int (home_size h) / 2}))
   \<and> \<not> hits_player e (g\<lparr>player := (player g)\<lparr>xcor := xcor e - real_of_int (enemy_size e) / 2\<rparr>\<rparr>)
   \<and> \<not> hits_player e (g\<lparr>player := (player g)\<lparr>xcor := xcor e + real_of_int (enemy_size e) / 2\<rparr>\<rparr>)
   \<and> \<not> hits_player e (g\<lparr>player := (player g)\<lparr>ycor := ycor e - real_of_int (enemy_size e) / 2\<rparr>\<rparr>)
   \<and> \<not> hits_player e (g\<lparr>player := (player g)\<lparr>ycor := ycor e + real_of_int (enemy_size e) / 2\<rparr>\<rparr>)"
  by (auto simp add: hits_player_def contains_def Let_def)

text \<open>
  C3 (as amended).  When the waypoint is active and the player's distance \<open>d\<close> to
  it is positive and at most the player's speed, one update of the player
  deactivates the waypoint and leaves the player at distance \<open>speed - d\<close> from
  it, which is less than the speed.  (Over the reals.)
\<close>

theorem Player_update_arrival:
  assumes act: "is_active (waypoint g)"
    and pos: "0 < distance (player g) (xcor (waypoint g)) (ycor (waypoint g))"
    and near: "distance (player g) (xcor (waypoint g)) (ycor (waypoint g)) \<le> player_speed (player g)"
  shows "\<not> is_active (waypoint (Player_update g))
       \<and> xcor (waypoint (Player_update g)) = xcor (waypoint g)
       \<and> ycor (waypoint (Player_update g)) = ycor (waypoint g)
       \<and> distance (player (Player_update g)) (xcor (waypoint g)) (ycor (waypoint g))
           = player_speed (player g) - distance (player g) (xcor (waypoint g)) (ycor (waypoint g))
       \<and> distance (player (Player_update g)) (xcor (waypoint g)) (ycor (waypoint g))
           < player_speed (player g)"
proof -
  let ?u = "xcor (waypoint g) - xcor (player g)"
  let ?v = "ycor (waypoint g) - ycor (player g)"
  let ?d = "distance (player g) (xcor (waypoint g)) (ycor (waypoint g))"
  have nz: "?u \<noteq> 0 \<or> ?v \<noteq> 0"
    using pos by (auto simp add: distance_def)
  let ?t = "forward (player_speed (player g))
              (setheading (towards (player g) (xcor (waypoint g)) (ycor (waypoint g))) (player g))"
  have d': "distance ?t (xcor (waypoint g)) (ycor (waypoint g)) = \<bar>?d - player_speed (player g)\<bar>"
    using step_towards [OF nz, of "player_speed (player g)"]
    by (simp add: forward_def setheading_def towards_def distance_def algebra_simps)
  have lt: "\<bar>?d - player_speed (player g)\<bar> < player_speed (player g)"
    using pos near by simp
  show ?thesis
    using act d' lt near
    by (simp add: Player_update_def Let_def deactivate_def)
qed

text \<open>
  The player at (50, 300) with speed 5 and a click at (53, 300): one update
  deactivates the waypoint and leaves the player at distance 2 from it.
\<close>

theorem Player_update_arrival_witness:
  "is_active (waypoint (click 53 300 session))
   \<and> distance (player (click 53 300 session)) 53 300 = 3
   \<and> \<not> is_active (waypoint (Player_update (click 53 300 session)))
   \<and> distance (player (Player_update (click 53 300 session))) 53 300 = 2"
  using Player_update_arrival [of "click 53 300 session"]
  by (simp add: click_def activate_def session_def distance_def)

text \<open>
  C3 as stated fails at distance 0: with the waypoint on the player's own
  position the heading is \<open>atan2 0 0 = 0\<close>, the player moves its speed away, and
  the distance left is not less than the speed, so the waypoint stays active.
\<close>

theorem Player_update_at_waypoint_stays_active:
  "is_active (waypoint (click 50 300 session))
   \<and> distance (player (click 50 300 session)) 50 300 = 0
   \<and> player_speed (player (click 50 300 session)) = 5
   \<and> is_active (waypoint (Player_update (click 50 300 session)))
   \<and> distance (player (Player_update (click 50 300 session))) 50 300 = 5"
  by (simp add: click_def session_def activate_def Player_update_def Let_def distance_def
      contains_def forward_def setheading_def towards_def atan2_def deactivate_def)

text \<open>
  C4 (as amended).  A fencing enemy that its creation hook has put on one of its
  4 start positions stays, under every sequence of updates (whatever the games
  they see), within the square of half-width 62 around the home, that is
  \<open>off_from_home + speed\<close>: a leg ends only once its boundary is crossed.  No
  update fails; at every moment the enemy is on a leg \<open>l\<close>, stays on it for fewer
  than 62 further updates and is then on the leg \<open>fencing_next l\<close>, so the legs
  come in the cyclic order up, right, down, left, up.
\<close>

theorem FencingEnemy_patrol:
  assumes "FencingEnemy_create d (FencingEnemy_init g sz col) g2 = Inr (e, g3)"
  shows "(\<exists>l0. f_move e = Some l0
          \<and> ((xcor e, ycor e), l0) \<in> set (fencing_pos (FencingEnemy_init g sz col)))
    \<and> (\<exists>e' l. fencing_run gs e = Inr e' \<and> f_move e' = Some l
        \<and> \<bar>xcor e' - xcor (home g)\<bar> \<le> 62 \<and> \<bar>ycor e' - ycor (home g)\<bar> \<le> 62
        \<and> (\<exists>n. 1 \<le> n \<and> n \<le> 62
             \<and> (\<forall>hs. length hs < n \<longrightarrow>
                  (\<exists>e''. fencing_run (gs @ hs) e = Inr e'' \<and> f_move e'' = Some l))
             \<and> (\<forall>hs. length hs = n \<longrightarrow>
                  (\<exists>e''. fencing_run (gs @ hs) e = Inr e'' \<and> f_move e'' = Some (fencing_next l)))))"
proof -
  have start: "\<exists>l0. f_move e = Some l0
          \<and> ((xcor e, ycor e), l0) \<in> set (fencing_pos (FencingEnemy_init g sz col))"
  proof -
    let ?e0 = "FencingEnemy_init g sz col"
    let ?i = "nat (int d mod 4)"
    have i: "?i < length (fencing_pos ?e0)"
      by (simp add: fencing_pos_def)
    have "e = ?e0\<lparr>xcor := fst (fst (fencing_pos ?e0 ! ?i)), ycor := snd (fst (fencing_pos ?e0 ! ?i)),
                   f_move := Some (snd (fencing_pos ?e0 ! ?i))\<rparr>"
      using assms by (simp add: FencingEnemy_create_def randint_def Let_def)
    then have "f_move e = Some (snd (fencing_pos ?e0 ! ?i))"
      and "((xcor e, ycor e), snd (fencing_pos ?e0 ! ?i)) = fencing_pos ?e0 ! ?i"
      by simp_all
    with nth_mem [OF i] show ?thesis
      by simp
  qed
  from fencing_create_inv [OF assms]
  have inv: "fencing_inv e" and hx: "homex e = xcor (home g)" and hy: "homey e = ycor (home g)"
    by simp_all
  from fencing_moves_inv [OF inv, of "length gs"] obtain e' where
    e': "fencing_moves (length gs) e = Inr e'" "fencing_inv e'"
      "homex e' = homex e" "homey e' = homey e"
    by blast
  from e'(2) obtain l where l: "f_move e' = Some l"
    by (auto simp add: fencing_inv_def split: option.splits)
  from fencing_progress [OF e'(2) l fencing_inv_rem [OF e'(2)]] obtain n where
    n: "1 \<le> n" "n \<le> 62"
      "\<forall>m<n. \<exists>e''. fencing_moves m e' = Inr e'' \<and> f_move e'' = Some l"
      "\<exists>e''. fencing_moves n e' = Inr e'' \<and> f_move e'' = Some (fencing_next l)"
    by blast
  have run: "fencing_run gs e = Inr e'"
    using e'(1) by (simp add: fencing_run_moves)
  have ext: "fencing_run (gs @ hs) e = fencing_moves (length hs) e'" for hs
    using e'(1) by (simp add: fencing_run_moves fencing_moves_add)
  have bounds: "\<bar>xcor e' - xcor (home g)\<bar> \<le> 62 \<and> \<bar>ycor e' - ycor (home g)\<bar> \<le> 62"
    using fencing_inv_bounds [OF e'(2)] e'(3,4) hx hy by simp
  have "\<exists>n. 1 \<le> n \<and> n \<le> 62
      \<and> (\<forall>hs. length hs < n \<longrightarrow>
            (\<exists>e''. fencing_run (gs @ hs) e = Inr e'' \<and> f_move e'' = Some l))
      \<and> (\<forall>hs. length hs = n \<longrightarrow>
            (\<exists>e''. fencing_run (gs @ hs) e = Inr e'' \<and> f_move e'' = Some (fencing_next l)))"
    using n by (intro exI [of _ n]) (simp add: ext)
  with start run l bounds show ?thesis
    by blast
qed

text \<open>The enemy of the session that starts on the lower edge, after two updates.\<close>

theorem FencingEnemy_patrol_witness:
  "(\<exists>l0. f_move fencer_start = Some l0
      \<and> ((xcor fencer_start, ycor fencer_start), l0)
          \<in> set (fencing_pos (FencingEnemy_init session 20 ''blue'')))
    \<and> (\<exists>e' l. fencing_run [session, session] fencer_start = Inr e' \<and> f_move e' = Some l
        \<and> \<bar>xcor e' - xcor (home session)\<bar> \<le> 62 \<and> \<bar>ycor e' - ycor (home session)\<bar> \<le> 62
        \<and> (\<exists>n. 1 \<le> n \<and> n \<le> 62
             \<and> (\<forall>hs. length hs < n \<longrightarrow>
                  (\<exists>e''. fencing_run ([session, session] @ hs) fencer_start = Inr e''
                     \<and> f_move e'' = Some l))
             \<and> (\<forall>hs. length hs = n \<longrightarrow>
                  (\<exists>e''. fencing_run ([session, session] @ hs) fencer_start = Inr e''
                     \<and> f_move e'' = Some (fencing_next l)))))"
proof -
  have "FencingEnemy_create 0 (FencingEnemy_init session 20 ''blue'') session
          = Inr (fencer_start, create_item (Rectangle ''blue'') session)"
    by (simp add: fencer_start_def FencingEnemy_create_def FencingEnemy_init_def randint_def
        fencing_pos_def session_def)
  then show ?thesis
    by (rule FencingEnemy_patrol)
qed

text \<open>
  C4 as stated fails: the enemy leaves the square of half-width 60.  Started on
  the lower edge at (700, 360), it is at x = 638 after 31 updates, left of the
  square's side at 640, and only then turns up.
\<close>

theorem FencingEnemy_leaves_square:
  "FencingEnemy_create 0 (FencingEnemy_init session 20 ''blue'') session
     = Inr (fencer_start, create_item (Rectangle ''blue'') session)
   \<and> fencing_run (replicate 31 session) fencer_start
     = Inr (fencer_start\<lparr>xcor := 638, f_move := Some leg_up\<rparr>)
   \<and> (638::real) < xcor (home session) - 60"
proof -
  have a: "FencingEnemy_create 0 (FencingEnemy_init session 20 ''blue'') session
     = Inr (fencer_start, create_item (Rectangle ''blue'') session)"
    by (simp add: fencer_start_def FencingEnemy_create_def FencingEnemy_init_def randint_def
      fencing_pos_def session_def)
  have "fencing_moves 30 fencer_start = Inr (fencer_start\<lparr>xcor := xcor fencer_start - real 30 * f_speed fencer_start\<rparr>)"
    by (rule fencing_left_run) (simp_all add: fencer_start_def FencingEnemy_init_def session_def)
  then have b: "fencing_moves 30 fencer_start = Inr (fencer_start\<lparr>xcor := 640\<rparr>)"
    by (simp add: fencer_start_def FencingEnemy_init_def)
  have "fencing_moves (30 + 1) fencer_start = Inr (fencer_start\<lparr>xcor := 638, f_move := Some leg_up\<rparr>)"
    unfolding fencing_moves_add b
    by (simp add: fencer_start_def FencingEnemy_init_def session_def fencing_move_def
        fencing_left_def Let_def)
  then have c: "fencing_run (replicate 31 session) fencer_start
     = Inr (fencer_start\<lparr>xcor := 638, f_move := Some leg_up\<rparr>)"
    by (simp add: fencing_run_moves)
  have d: "(638::real) < xcor (home session) - 60"
    by (simp add: session_def)
  from a c d show ?thesis by simp
qed

text \<open>
  C5.  The constructor of a blocker enemy gives it speed 7 and half-width 60 and
  captures the player's position as its anchor; the creation hook puts it on one
  of the 4 start positions around the anchor (the list of a fencing enemy with
  that anchor) and keeps the anchor.  One update moves it as the update of the
  fencing enemy with the same position, speed, anchor, half-width and leg moves
  that one, and it changes leg exactly when that one does, but to the leg
  \<open>blocker_next\<close>: up to down, right to left, down to up, left to right.  No
  sequence of updates changes the anchor, the speed or the half-width, whatever
  the player's position in the games the updates see.
\<close>

theorem BlockerEnemy_patrol:
  "b_speed (BlockerEnemy_init g sz col) = 7
   \<and> off_from_player (BlockerEnemy_init g sz col) = 60
   \<and> player_x (BlockerEnemy_init g sz col) = xcor (player g)
   \<and> player_y (BlockerEnemy_init g sz col) = ycor (player g)
   \<and> blocker_pos e = fencing_pos (as_fencing e)
   \<and> (\<exists>e1 l1. BlockerEnemy_create d e g2 = Inr (e1, create_item (Rectangle (color e)) g2)
        \<and> b_move e1 = Some l1 \<and> ((xcor e1, ycor e1), l1) \<in> set (blocker_pos e)
        \<and> player_x e1 = player_x e \<and> player_y e1 = player_y e
        \<and> b_speed e1 = b_speed e \<and> off_from_player e1 = off_from_player e)
   \<and> (\<exists>e1 f1. blocker_move (e\<lparr>b_move := Some l\<rparr>) = Inr e1
        \<and> fencing_move (as_fencing (e\<lparr>b_move := Some l\<rparr>)) = Inr f1
        \<and> BlockerEnemy_update (e\<lparr>b_move := Some l\<rparr>) g2
            = Inr (e1, if hits_player e1 g2 then game_over_lose g2 else g2)
        \<and> xcor e1 = xcor f1 \<and> ycor e1 = ycor f1
        \<and> player_x e1 = player_x e \<and> player_y e1 = player_y e
        \<and> b_speed e1 = b_speed e \<and> off_from_player e1 = off_from_player e
        \<and> (f_move f1 = Some l \<and> b_move e1 = Some l
             \<or> f_move f1 = Some (fencing_next l) \<and> b_move e1 = Some (blocker_next l)))
   \<and> blocker_next leg_up = leg_down \<and> blocker_next leg_right = leg_left
   \<and> blocker_next leg_down = leg_up \<and> blocker_next leg_left = leg_right
   \<and> blocker_move (e\<lparr>b_move := Some leg_up\<rparr>)
       = Inr (e\<lparr>ycor := ycor e - b_speed e,
                b_move := Some (if ycor e - b_speed e < player_y e - off_from_player e
                                then leg_down else leg_up)\<rparr>)
   \<and> blocker_move (e\<lparr>b_move := Some leg_right\<rparr>)
       = Inr (e\<lparr>xcor := xcor e + b_speed e,
                b_move := Some (if xcor e + b_speed e > player_x e + off_from_player e
                                then leg_left else leg_right)\<rparr>)
   \<and> blocker_move (e\<lparr>b_move := Some leg_down\<rparr>)
       = Inr (e\<lparr>ycor := ycor e + b_speed e,
                b_move := Some (if ycor e + b_speed e > player_y e + off_from_player e
                                then leg_up else leg_down)\<rparr>)
   \<and> blocker_move (e\<lparr>b_move := Some leg_left\<rparr>)
       = Inr (e\<lparr>xcor := xcor e - b_speed e,
                b_move := Some (if xcor e - b_speed e < player_x e - off_from_player e
                                then leg_right else leg_left)\<rparr>)
   \<and> (\<exists>e'. blocker_run gs (e\<lparr>b_move := Some l\<rparr>) = Inr e'
        \<and> player_x e' = player_x e \<and> player_y e' = player_y e
        \<and> b_speed e' = b_speed e \<and> off_from_player e' = off_from_player e)"
proof -
  have init: "b_speed (BlockerEnemy_init g sz col) = 7
      \<and> off_from_player (BlockerEnemy_init g sz col) = 60
      \<and> player_x (BlockerEnemy_init g sz col) = xcor (player g)
      \<and> player_y (BlockerEnemy_init g sz col) = ycor (player g)"
    by (simp add: BlockerEnemy_init_def)
  have pos: "blocker_pos e = fencing_pos (as_fencing e)"
    by (simp add: blocker_pos_def fencing_pos_def as_fencing_def)
  have nxt: "blocker_next leg_up = leg_down \<and> blocker_next leg_right = leg_left
      \<and> blocker_next leg_down = leg_up \<and> blocker_next leg_left = leg_right"
    by (simp add: blocker_next_def)
  have run: "\<exists>e'. blocker_run gs (e\<lparr>b_move := Some l\<rparr>) = Inr e'
        \<and> player_x e' = player_x e \<and> player_y e' = player_y e
        \<and> b_speed e' = b_speed e \<and> off_from_player e' = off_from_player e"
    using blocker_run_anchor [where e = "e\<lparr>b_move := Some l\<rparr>" and l = l and gs = gs] by simp
  show ?thesis
    by (intro conjI blocker_legs run blocker_create [where d = d and e = e and ?g2.0 = g2]
        blocker_step [where e = e and l = l and ?g2.0 = g2]
        init [THEN conjunct1] init [THEN conjunct2, THEN conjunct1]
        init [THEN conjunct2, THEN conjunct2, THEN conjunct1]
        init [THEN conjunct2, THEN conjunct2, THEN conjunct2] pos
        nxt [THEN conjunct1] nxt [THEN conjunct2, THEN conjunct1]
        nxt [THEN conjunct2, THEN conjunct2, THEN conjunct1]
        nxt [THEN conjunct2, THEN conjunct2, THEN conjunct2])
qed

text \<open>
  C9.  What one update of a random-walk enemy does: it moves by its speed along
  each axis, in the current direction of that axis, and keeps the speed (drawn
  from 1 to 5 by the constructor, one number for both axes).  The horizontal
  direction reverses exactly when the new x is below 0 (moving left) or above
  the screen width (moving right); the vertical one when the new y is above
  the screen height (moving down), but moving up it reverses when the new y is
  at most 0: the enemy \<open>walker\<close>, moving up from y = 5 with speed 5, reverses
  at y = 0, a point of the interval from 0 to the screen height.
\<close>

theorem RandomWalkEnemy_reverses_at_zero:
  "fst (RandomWalkEnemy_update walker session) = walker\<lparr>xcor := 105, ycor := 0, ymove := y_down\<rparr>
   \<and> ymove walker = y_up
   \<and> (0::real) \<in> {0 .. real_of_int (screen_height session)}
   \<and> xcor (fst (RandomWalkEnemy_update e g))
       = (if xmove e = x_left then xcor e - real_of_int (rw_speed e)
          else xcor e + real_of_int (rw_speed e))
   \<and> ycor (fst (RandomWalkEnemy_update e g))
       = (if ymove e = y_up then ycor e - real_of_int (rw_speed e)
          else ycor e + real_of_int (rw_speed e))
   \<and> rw_speed (fst (RandomWalkEnemy_update e g)) = rw_speed e
   \<and> (xmove (fst (RandomWalkEnemy_update e g)) \<noteq> xmove e)
       = (if xmove e = x_left then xcor (fst (RandomWalkEnemy_update e g)) < 0
          else xcor (fst (RandomWalkEnemy_update e g)) > real_of_int (screen_width g))
   \<and> (ymove (fst (RandomWalkEnemy_update e g)) \<noteq> ymove e)
       = (if ymove e = y_up then ycor (fst (RandomWalkEnemy_update e g)) \<le> 0
          else ycor (fst (RandomWalkEnemy_update e g)) > real_of_int (screen_height g))
   \<and> (\<exists>e0. RandomWalkEnemy_init g sz col d = Inr e0 \<and> 1 \<le> rw_speed e0 \<and> rw_speed e0 \<le> 5
         \<and> xmove e0 = x_right \<and> ymove e0 = y_down)"
proof -
  have "fst (RandomWalkEnemy_update walker session)
          = walker\<lparr>xcor := 105, ycor := 0, ymove := y_down\<rparr>
      \<and> ymove walker = y_up
      \<and> (0::real) \<in> {0 .. real_of_int (screen_height session)}"
    by (simp add: walker_def session_def RandomWalkEnemy_update_def rw_x_right_def rw_y_up_def
        Let_def)
  with rw_general [of e g] rw_init [of g sz col d] show ?thesis
    by (simp only: simp_thms)
qed

text \<open>
  C10 (as amended).  In an arena with a positive width, the creation hooks of
  the random-walk and of the chasing enemy set x and y to two draws of
  \<^verbatim>\<open>randint(0, screen_width - 1)\<close>: both lie between 0 and the width minus 1,
  every pair of such values is the outcome of some pair of draws, and the
  height plays no part.  So where the height is below the width minus 1 some
  draw puts y beyond the height; where the width minus 1 is below the height no
  draw reaches it; and where the two are equal some draw puts y on the height
  and none beyond.  In an arena whose width is not positive both hooks raise
  ValueError.
\<close>

theorem create_draws_from_width:
  "(0 < screen_width g \<longrightarrow>
      (\<exists>x1 y1. randint 0 (screen_width g - 1) d1 = Inr x1
           \<and> randint 0 (screen_width g - 1) d2 = Inr y1
           \<and> 0 \<le> x1 \<and> x1 \<le> screen_width g - 1 \<and> 0 \<le> y1 \<and> y1 \<le> screen_width g - 1
           \<and> RandomWalkEnemy_create d1 d2 e g
               = Inr (e\<lparr>xcor := real_of_int x1, ycor := real_of_int y1\<rparr>,
                      create_item (Oval (color e)) g)
           \<and> ChasingEnemy_create d1 d2 c g
               = Inr (c\<lparr>xcor := real_of_int x1, ycor := real_of_int y1\<rparr>,
                      create_item (Rectangle (color c)) g)
           \<and> (screen_width g - 1 < screen_height g \<longrightarrow> y1 < screen_height g)
           \<and> (screen_width g - 1 = screen_height g \<longrightarrow> y1 \<le> screen_height g))
       \<and> (\<forall>a b. 0 \<le> a \<and> a \<le> screen_width g - 1 \<and> 0 \<le> b \<and> b \<le> screen_width g - 1 \<longrightarrow>
             RandomWalkEnemy_create (nat a) (nat b) e g
               = Inr (e\<lparr>xcor := real_of_int a, ycor := real_of_int b\<rparr>,
                      create_item (Oval (color e)) g)
           \<and> ChasingEnemy_create (nat a) (nat b) c g
               = Inr (c\<lparr>xcor := real_of_int a, ycor := real_of_int b\<rparr>,
                      create_item (Rectangle (color c)) g))
       \<and> (screen_height g < screen_width g - 1 \<longrightarrow>
             (\<exists>d y. randint 0 (screen_width g - 1) d = Inr y \<and> screen_height g < y))
       \<and> (screen_width g - 1 = screen_height g \<longrightarrow>
             (\<exists>d. randint 0 (screen_width g - 1) d = Inr (screen_height g))))
   \<and> (screen_width g \<le> 0 \<longrightarrow>
         RandomWalkEnemy_create d1 d2 e g = Inl ValueError
         \<and> ChasingEnemy_create d1 d2 c g = Inl ValueError)"
proof -
  have neg: "RandomWalkEnemy_create d1 d2 e g = Inl ValueError
         \<and> ChasingEnemy_create d1 d2 c g = Inl ValueError" if "screen_width g \<le> 0"
    using that by (simp add: RandomWalkEnemy_create_def ChasingEnemy_create_def randint_def)
  have pos: "(\<exists>x1 y1. randint 0 (screen_width g - 1) d1 = Inr x1
           \<and> randint 0 (screen_width g - 1) d2 = Inr y1
           \<and> 0 \<le> x1 \<and> x1 \<le> screen_width g - 1 \<and> 0 \<le> y1 \<and> y1 \<le> screen_width g - 1
           \<and> RandomWalkEnemy_create d1 d2 e g
               = Inr (e\<lparr>xcor := real_of_int x1, ycor := real_of_int y1\<rparr>,
                      create_item (Oval (color e)) g)
           \<and> ChasingEnemy_create d1 d2 c g
               = Inr (c\<lparr>xcor := real_of_int x1, ycor := real_of_int y1\<rparr>,
                      create_item (Rectangle (color c)) g)
           \<and> (screen_width g - 1 < screen_height g \<longrightarrow> y1 < screen_height g)
           \<and> (screen_width g - 1 = screen_height g \<longrightarrow> y1 \<le> screen_height g))
       \<and> (\<forall>a b. 0 \<le> a \<and> a \<le> screen_width g - 1 \<and> 0 \<le> b \<and> b \<le> screen_width g - 1 \<longrightarrow>
             RandomWalkEnemy_create (nat a) (nat b) e g
               = Inr (e\<lparr>xcor := real_of_int a, ycor := real_of_int b\<rparr>,
                      create_item (Oval (color e)) g)
           \<and> ChasingEnemy_create (nat a) (nat b) c g
               = Inr (c\<lparr>xcor := real_of_int a, ycor := real_of_int b\<rparr>,
                      create_item (Rectangle (color c)) g))
       \<and> (screen_height g < screen_width g - 1 \<longrightarrow>
             (\<exists>d y. randint 0 (screen_width g - 1) d = Inr y \<and> screen_height g < y))
       \<and> (screen_width g - 1 = screen_height g \<longrightarrow>
             (\<exists>d. randint 0 (screen_width g - 1) d = Inr (screen_height g)))"
    if w: "0 < screen_width g"
  proof -
    from w have le: "0 \<le> screen_width g - 1" by simp
    have top: "randint 0 (screen_width g - 1) (nat (screen_width g - 1)) = Inr (screen_width g - 1)"
      using randint_hits [of 0 "screen_width g - 1" "screen_width g - 1"] le by simp
    have reach: "\<exists>d. randint 0 (screen_width g - 1) d = Inr (screen_height g)"
      if "screen_width g - 1 = screen_height g"
      using top that by auto
    from create_draws_pos [OF w, of d1 d2 e c] obtain x1 y1 where
      xy: "randint 0 (screen_width g - 1) d1 = Inr x1"
        "randint 0 (screen_width g - 1) d2 = Inr y1"
        "0 \<le> x1" "x1 \<le> screen_width g - 1" "0 \<le> y1" "y1 \<le> screen_width g - 1"
        "RandomWalkEnemy_create d1 d2 e g
               = Inr (e\<lparr>xcor := real_of_int x1, ycor := real_of_int y1\<rparr>,
                      create_item (Oval (color e)) g)"
        "ChasingEnemy_create d1 d2 c g
               = Inr (c\<lparr>xcor := real_of_int x1, ycor := real_of_int y1\<rparr>,
                      create_item (Rectangle (color c)) g)"
        "screen_width g - 1 < screen_height g \<longrightarrow> y1 < screen_height g"
      and every: "\<forall>a b. 0 \<le> a \<and> a \<le> screen_width g - 1 \<and> 0 \<le> b \<and> b \<le> screen_width g - 1 \<longrightarrow>
             RandomWalkEnemy_create (nat a) (nat b) e g
               = Inr (e\<lparr>xcor := real_of_int a, ycor := real_of_int b\<rparr>,
                      create_item (Oval (color e)) g)
           \<and> ChasingEnemy_create (nat a) (nat b) c g
               = Inr (c\<lparr>xcor := real_of_int a, ycor := real_of_int b\<rparr>,
                      create_item (Rectangle (color c)) g)"
      and above: "screen_height g < screen_width g - 1 \<longrightarrow>
             (\<exists>d y. randint 0 (screen_width g - 1) d = Inr y \<and> screen_height g < y)"
      by blast
    from xy(6) have atmost: "screen_width g - 1 = screen_height g \<longrightarrow> y1 \<le> screen_height g"
      by simp
    from xy atmost every above reach show ?thesis
      by blast
  qed
  from pos neg show ?thesis
    by blast
qed

text \<open>
  The arena of 800 by 600: the draws 250 and 799 put both enemies at (250, 799),
  beyond the arena's height.
\<close>

theorem create_draws_from_width_witness:
  "RandomWalkEnemy_create 250 799 walker session
     = Inr (walker\<lparr>xcor := 250, ycor := 799\<rparr>, create_item (Oval ''red'') session)
   \<and> ChasingEnemy_create 250 799 (chaser_at 100 100) session
     = Inr ((chaser_at 100 100)\<lparr>xcor := 250, ycor := 799\<rparr>, create_item (Rectangle ''green'') session)
   \<and> real_of_int (screen_height session) < 799"
proof -
  have w: "screen_width session = 800" and h: "screen_height session = 600"
    by (simp_all add: session_def)
  from create_draws_from_width [of session 250 799 walker "chaser_at 100 100"]
  show ?thesis
    by (simp add: w h walker_def chaser_at_def ChasingEnemy_init_def randint_def)
qed

text \<open>
  C10 as stated fails: with a width of 0 the hooks set no coordinate but raise
  ValueError; and the arena of 801 by 800 is not square, yet y reaches the
  height 800 (at the draw 800) and, the range ending there, never exceeds it.
\<close>

theorem create_fails_without_width:
  "RandomWalkEnemy_create 0 0 walker (session\<lparr>screen_width := 0\<rparr>) = Inl ValueError
   \<and> ChasingEnemy_create 0 0 (chaser_at 100 100) (session\<lparr>screen_width := 0\<rparr>) = Inl ValueError
   \<and> screen_width (session\<lparr>screen_width := 801, screen_height := 800\<rparr>)
       \<noteq> screen_height (session\<lparr>screen_width := 801, screen_height := 800\<rparr>)
   \<and> RandomWalkEnemy_create 0 800 walker (session\<lparr>screen_width := 801, screen_height := 800\<rparr>)
       = Inr (walker\<lparr>xcor := 0, ycor := 800\<rparr>,
              create_item (Oval ''red'') (session\<lparr>screen_width := 801, screen_height := 800\<rparr>))
   \<and> randint 0 (screen_width (session\<lparr>screen_width := 801, screen_height := 800\<rparr>) - 1) 800
       = Inr (screen_height (session\<lparr>screen_width := 801, screen_height := 800\<rparr>))"
  by (simp add: RandomWalkEnemy_create_def ChasingEnemy_create_def randint_def walker_def
      chaser_at_def ChasingEnemy_init_def session_def)










end
